theory Spec2Isabelle
  imports Complex_Main
begin

section \<open>The notebook \<open>pipeline/build_pipeline.ipynb\<close>\<close>

text \<open>
  The notebook is a sequence of cells of Python that build descriptors (plain objects) and
  call the vendor SDK. The descriptors are records and datatypes; every SDK call that
  reaches the platform is a field of a \<open>platform\<close> record, a parameter of the model:
  it reads and changes the platform's state (the world) and either returns a handle or
  raises. The cells are written once, for every platform. The constructors of
  descriptors (\<open>PipelineData\<close>, \<open>PythonScriptStep\<close>, \<open>Pipeline\<close>,
  \<open>ScheduleRecurrence\<close> and the like) return the descriptor with the arguments they
  were given. The first cell is a shell script: its commands are run by the platform's
  \<open>run_command\<close>, which gives each command's exit status. The cell of imports binds
  names only and is left out.
\<close>

subsection \<open>Exceptions and handles\<close>

text \<open>
  The notebook names one exception class, \<open>ComputeTargetException\<close>; every other
  exception is carried by the name of its class.
\<close>

datatype exn = ComputeTargetException | OtherException string

text \<open>
  Handles the platform returns. The notebook never looks inside a workspace, a compute
  target, an environment, a datastore or a run; it reads \<open>id\<close> of a published
  pipeline and of a schedule, and \<open>name\<close> and the class of a dataset.
\<close>

datatype workspace = Workspace string
datatype compute = Compute string
datatype environment = Environment string
datatype datastore = Datastore string
datatype run = Run string
datatype published_pipeline = PublishedPipeline string
datatype schedule = Schedule string

text \<open>
  A dataset is an instance of \<open>FileDataset\<close>, of \<open>TabularDataset\<close> or of neither
  class; each carries its \<open>name\<close> attribute.
\<close>

datatype dataset = FileDataset string | TabularDataset string | OtherDataset string

fun dataset_name :: "dataset \<Rightarrow> string" where
  "dataset_name (FileDataset n) = n"
| "dataset_name (TabularDataset n) = n"
| "dataset_name (OtherDataset n) = n"

fun isinstance_FileDataset :: "dataset \<Rightarrow> bool" where
  "isinstance_FileDataset (FileDataset n) = True"
| "isinstance_FileDataset d = False"

fun isinstance_TabularDataset :: "dataset \<Rightarrow> bool" where
  "isinstance_TabularDataset (TabularDataset n) = True"
| "isinstance_TabularDataset d = False"

fun published_pipeline_id :: "published_pipeline \<Rightarrow> string" where
  "published_pipeline_id (PublishedPipeline i) = i"

fun schedule_id :: "schedule \<Rightarrow> string" where
  "schedule_id (Schedule i) = i"

subsection \<open>Descriptors\<close>

text \<open>\<open>AmlCompute.provisioning_configuration(vm_size, idle_seconds_before_scaledown,
  min_nodes, max_nodes)\<close>: the keyword arguments of the call.\<close>

record provisioning_configuration =
  vm_size :: string
  idle_seconds_before_scaledown :: nat
  min_nodes :: nat
  max_nodes :: nat

text \<open>\<open>RunConfiguration()\<close> and its \<open>environment\<close> attribute, which the notebook
  assigns; \<open>None\<close> is the SDK's default, before the assignment.\<close>

record run_configuration =
  rc_environment :: "environment option"

definition RunConfiguration :: run_configuration where
  "RunConfiguration = \<lparr>rc_environment = None\<rparr>"

text \<open>\<open>PipelineData(name, datastore)\<close> and \<open>PipelineParameter(name, default_value)\<close>.\<close>

record pipeline_data =
  pd_name :: string
  pd_datastore :: datastore

record pipeline_parameter =
  pp_name :: string
  pp_default_value :: real

text \<open>
  A dataset bound as a step input: the chain of SDK methods the notebook applies,
  \<open>dataset.as_named_input(name)\<close> and then, for a file dataset, \<open>.as_mount()\<close>.
\<close>

datatype dataset_binding = as_named_input dataset string | as_mount dataset_binding

text \<open>An element of a step's \<open>inputs\<close> list is a bound dataset or a data slot; an
  element of its \<open>arguments\<close> list is a string, a data slot or a pipeline parameter.\<close>

datatype step_input = DatasetInput dataset_binding | DataSlot pipeline_data

datatype argument = ArgStr string | ArgData pipeline_data | ArgParam pipeline_parameter

text \<open>\<open>PythonScriptStep(...)\<close>: the keyword arguments. \<open>inputs\<close> may be \<open>None\<close>, and
  so may \<open>compute_target\<close> (the default of the keyword).\<close>

record python_script_step =
  script_name :: string
  step_name :: string
  arguments :: "argument list"
  compute_target :: "compute option"
  runconfig :: run_configuration
  inputs :: "step_input list option"
  outputs :: "pipeline_data list"
  source_directory :: string

text \<open>\<open>Pipeline(workspace, steps, description)\<close>.\<close>

record pipeline =
  pl_workspace :: workspace
  steps :: "python_script_step list"
  pl_description :: string

text \<open>\<open>ScheduleRecurrence(frequency, interval, hours, minutes)\<close>.\<close>

record schedule_recurrence =
  frequency :: string
  interval :: nat
  hours :: "nat list"
  minutes :: "nat list"

text \<open>
  The keyword arguments of \<open>Schedule.create\<close>, as the call writes them. A keyword
  the call does not pass is \<open>None\<close> here, and the SDK's default then applies (for
  \<open>polling_interval\<close>, 5 minutes by the notebook's comment): \<open>recurrence\<close> for
  the time trigger; \<open>datastore\<close>, \<open>polling_interval\<close> and \<open>path_on_datastore\<close>
  for the storage trigger.
\<close>

record schedule_request =
  sc_workspace :: workspace
  sc_name :: string
  pipeline_id :: string
  experiment_name :: string
  recurrence :: "schedule_recurrence option"
  sc_datastore :: "datastore option"
  polling_interval :: "nat option"
  path_on_datastore :: "string option"
  wait_for_provisioning :: bool
  sc_description :: string

subsection \<open>The platform and the run state\<close>

text \<open>An SDK call takes the world and gives back a result or an exception, and the
  world after the call.\<close>

type_synonym ('w, 'a) sdk = "'w \<Rightarrow> (exn + 'a) \<times> 'w"

record 'w platform =
  run_command :: "string \<Rightarrow> 'w \<Rightarrow> nat \<times> 'w"
  Workspace_from_config :: "('w, workspace) sdk"
  AmlCompute_init :: "workspace \<Rightarrow> string \<Rightarrow> ('w, compute) sdk"
  ComputeTarget_create ::
    "workspace \<Rightarrow> string \<Rightarrow> provisioning_configuration \<Rightarrow> ('w, compute) sdk"
  wait_for_completion :: "compute \<Rightarrow> bool \<Rightarrow> nat option \<Rightarrow> nat \<Rightarrow> ('w, unit) sdk"
  Environment_from_conda_specification :: "string \<Rightarrow> string \<Rightarrow> ('w, environment) sdk"
  Dataset_get_by_name :: "workspace \<Rightarrow> string \<Rightarrow> ('w, dataset) sdk"
  Datastore_init :: "workspace \<Rightarrow> string \<Rightarrow> ('w, datastore) sdk"
  Pipeline_validate :: "pipeline \<Rightarrow> ('w, unit) sdk"
  Pipeline_submit :: "pipeline \<Rightarrow> string \<Rightarrow> bool \<Rightarrow> ('w, run) sdk"
  Pipeline_publish :: "pipeline \<Rightarrow> ('w, published_pipeline) sdk"
  Schedule_create :: "schedule_request \<Rightarrow> ('w, schedule) sdk"

text \<open>The calls, as the run's trace records them with their arguments.\<close>

datatype call =
    FromConfig
  | Lookup workspace string
  | Create workspace string provisioning_configuration
  | WaitForCompletion compute bool "nat option" nat
  | FromCondaSpecification string string
  | GetByName workspace string
  | GetDatastore workspace string
  | Validate pipeline
  | Submit pipeline string bool
  | Publish pipeline
  | CreateSchedule schedule_request

text \<open>
  The state of a run: the world, the SDK calls issued so far, each with the exception it
  raised (if any), the lines printed, and the shell commands run so far, each with its
  exit status.
\<close>

record 'w nb_state =
  world :: 'w
  trace :: "(call \<times> exn option) list"
  stdout :: "string list"
  shell_log :: "(string \<times> nat) list"

type_synonym ('w, 'a) prog = "'w nb_state \<Rightarrow> (exn + 'a) \<times> 'w nb_state"

definition return :: "'a \<Rightarrow> ('w, 'a) prog" where
  "return x s = (Inr x, s)"

text \<open>Statements in sequence: an exception of the first ends the run there.\<close>

definition bind :: "('w, 'a) prog \<Rightarrow> ('a \<Rightarrow> ('w, 'b) prog) \<Rightarrow> ('w, 'b) prog" where
  "bind m f s = (case m s of (Inl e, s') \<Rightarrow> (Inl e, s') | (Inr x, s') \<Rightarrow> f x s')"

text \<open>\<open>try: body except E: handler\<close>, where \<open>catches\<close> says which exceptions are
  instances of \<open>E\<close>.\<close>

definition try_except ::
  "('w, 'a) prog \<Rightarrow> (exn \<Rightarrow> bool) \<Rightarrow> ('w, 'a) prog \<Rightarrow> ('w, 'a) prog" where
  "try_except body catches handler s =
     (case body s of
        (Inl e, s') \<Rightarrow> if catches e then handler s' else (Inl e, s')
      | (Inr x, s') \<Rightarrow> (Inr x, s'))"

definition outcome :: "exn + 'a \<Rightarrow> exn option" where
  "outcome r = (case r of Inl e \<Rightarrow> Some e | Inr x \<Rightarrow> None)"

text \<open>An SDK call of the notebook: run it on the world and record it.\<close>

definition invoke :: "call \<Rightarrow> ('w, 'a) sdk \<Rightarrow> ('w, 'a) prog" where
  "invoke c f s =
     (case f (world s) of
        (r, w') \<Rightarrow> (r, s\<lparr>world := w', trace := trace s @ [(c, outcome r)]\<rparr>))"

definition print :: "string \<Rightarrow> ('w, unit) prog" where
  "print line s = (Inr (), s\<lparr>stdout := stdout s @ [line]\<rparr>)"

definition raise :: "exn \<Rightarrow> ('w, 'a) prog" where
  "raise e s = (Inl e, s)"

text \<open>A command of a shell script: the shell runs it, records it and goes on to the next
  command whatever its exit status (the script sets no \<open>-e\<close>).\<close>

definition sh :: "'w platform \<Rightarrow> string \<Rightarrow> ('w, nat) prog" where
  "sh P cmd s =
     (case run_command P cmd (world s) of
        (status, w') \<Rightarrow>
          (Inr status, s\<lparr>world := w', shell_log := shell_log s @ [(cmd, status)]\<rparr>))"

subsection \<open>The cells\<close>

text \<open>
  The first cell, with its two variables expanded:
  \<^verbatim>\<open>
  %%bash
  pip install yapf
  INPUTDIR=../notebooks
  OUTPUTDIR=scripts
  jupyter nbconvert --to python $INPUTDIR/01-data-prep/data_prep.ipynb
      --output-dir $OUTPUTDIR/01-data-prep --template=ipynb_to_py.tpl
  yapf -i $OUTPUTDIR/01-data-prep/data_prep.py
  pylint -E $OUTPUTDIR/01-data-prep/data_prep.py
  jupyter nbconvert --to python $INPUTDIR/02-train/train.ipynb
      --output-dir $OUTPUTDIR/02-train --template=ipynb_to_py.tpl
  yapf -i $OUTPUTDIR/02-train/train.py
  pylint -E $OUTPUTDIR/02-train/train.py
  exit 0
  \<close>
  The exit status of the script is that of its last command, \<open>exit 0\<close>. The cell
  raises \<open>CalledProcessError\<close> when the script's exit status is not 0.
\<close>

definition INPUTDIR :: string where
  "INPUTDIR = ''../notebooks''"

definition OUTPUTDIR :: string where
  "OUTPUTDIR = ''scripts''"

definition install_yapf :: string where
  "install_yapf = ''pip install yapf''"

definition convert_data_prep :: string where
  "convert_data_prep =
     ''jupyter nbconvert --to python '' @ INPUTDIR @ ''/01-data-prep/data_prep.ipynb''
     @ '' --output-dir '' @ OUTPUTDIR @ ''/01-data-prep --template=ipynb_to_py.tpl''"

definition format_data_prep :: string where
  "format_data_prep = ''yapf -i '' @ OUTPUTDIR @ ''/01-data-prep/data_prep.py''"

definition lint_data_prep :: string where
  "lint_data_prep = ''pylint -E '' @ OUTPUTDIR @ ''/01-data-prep/data_prep.py''"

definition convert_train :: string where
  "convert_train =
     ''jupyter nbconvert --to python '' @ INPUTDIR @ ''/02-train/train.ipynb''
     @ '' --output-dir '' @ OUTPUTDIR @ ''/02-train --template=ipynb_to_py.tpl''"

definition format_train :: string where
  "format_train = ''yapf -i '' @ OUTPUTDIR @ ''/02-train/train.py''"

definition lint_train :: string where
  "lint_train = ''pylint -E '' @ OUTPUTDIR @ ''/02-train/train.py''"

definition bash_commands :: "string list" where
  "bash_commands =
     [install_yapf, convert_data_prep, format_data_prep, lint_data_prep,
      convert_train, format_train, lint_train]"

definition bash_script :: "'w platform \<Rightarrow> ('w, nat) prog" where
  "bash_script P =
     bind (sh P install_yapf) (\<lambda>r1.
     bind (sh P convert_data_prep) (\<lambda>r2.
     bind (sh P format_data_prep) (\<lambda>r3.
     bind (sh P lint_data_prep) (\<lambda>r4.
     bind (sh P convert_train) (\<lambda>r5.
     bind (sh P format_train) (\<lambda>r6.
     bind (sh P lint_train) (\<lambda>r7.
     return 0)))))))"

definition bash_cell :: "'w platform \<Rightarrow> ('w, unit) prog" where
  "bash_cell P =
     bind (bash_script P) (\<lambda>status.
     if status = 0 then return () else raise (OtherException ''CalledProcessError''))"

text \<open>\<open>ws = Workspace.from_config()\<close>\<close>

definition workspace_cell :: "'w platform \<Rightarrow> ('w, workspace) prog" where
  "workspace_cell P = invoke FromConfig (Workspace_from_config P)"

text \<open>
  The compute cell, as a function of the name it binds to \<open>aml_compute_target\<close>:
  \<^verbatim>\<open>
  try:
      aml_compute = AmlCompute(ws, aml_compute_target)
      print("found existing compute target.")
  except ComputeTargetException:
      print("creating new compute target")
      provisioning_config = AmlCompute.provisioning_configuration(
          vm_size = "STANDARD_D2_V2", idle_seconds_before_scaledown=1200,
          min_nodes = 0, max_nodes = 4)
      aml_compute = ComputeTarget.create(ws, aml_compute_target, provisioning_config)
      aml_compute.wait_for_completion(show_output=True, min_node_count=None,
                                      timeout_in_minutes=20)
  print("Azure Machine Learning Compute attached")
  \<close>
\<close>

definition aml_compute_target :: string where
  "aml_compute_target = ''cpu-cluster''"

definition provisioning_config :: provisioning_configuration where
  "provisioning_config =
     \<lparr>vm_size = ''STANDARD_D2_V2'', idle_seconds_before_scaledown = 1200,
      min_nodes = 0, max_nodes = 4\<rparr>"

definition lookup_compute :: "'w platform \<Rightarrow> workspace \<Rightarrow> string \<Rightarrow> ('w, compute) prog" where
  "lookup_compute P ws target =
     bind (invoke (Lookup ws target) (AmlCompute_init P ws target)) (\<lambda>aml_compute.
     bind (print ''found existing compute target.'') (\<lambda>u.
     return aml_compute))"

definition create_compute :: "'w platform \<Rightarrow> workspace \<Rightarrow> string \<Rightarrow> ('w, compute) prog" where
  "create_compute P ws target =
     bind (print ''creating new compute target'') (\<lambda>u.
     bind (invoke (Create ws target provisioning_config)
             (ComputeTarget_create P ws target provisioning_config)) (\<lambda>aml_compute.
     bind (invoke (WaitForCompletion aml_compute True None 20)
             (wait_for_completion P aml_compute True None 20)) (\<lambda>u.
     return aml_compute)))"

definition compute_cell :: "'w platform \<Rightarrow> workspace \<Rightarrow> string \<Rightarrow> ('w, compute) prog" where
  "compute_cell P ws target =
     bind (try_except (lookup_compute P ws target)
             (\<lambda>e. e = ComputeTargetException)
             (create_compute P ws target)) (\<lambda>aml_compute.
     bind (print ''Azure Machine Learning Compute attached'') (\<lambda>u.
     return aml_compute))"

text \<open>
  \<^verbatim>\<open>
  run_config = RunConfiguration()
  my_env = Environment.from_conda_specification("my_pipeline", "./conda_dependencies.yml")
  run_config.environment = my_env
  \<close>
\<close>

definition environment_cell :: "'w platform \<Rightarrow> ('w, run_configuration) prog" where
  "environment_cell P =
     bind (return RunConfiguration) (\<lambda>run_config.
     bind (invoke (FromCondaSpecification ''my_pipeline'' ''./conda_dependencies.yml'')
             (Environment_from_conda_specification P
                ''my_pipeline'' ''./conda_dependencies.yml'')) (\<lambda>my_env.
     return (run_config\<lparr>rc_environment := Some my_env\<rparr>)))"

text \<open>
  \<^verbatim>\<open>
  DATASET_NAME = ''
  DATASTORE_NAME = ''
  input_dataset = Dataset.get_by_name(ws, DATASET_NAME)
  datastore = Datastore(ws, DATASTORE_NAME)
  training_data = PipelineData(name='training_data', datastore=datastore)
  \<close>
\<close>

definition DATASET_NAME :: string where
  "DATASET_NAME = ''''"

definition DATASTORE_NAME :: string where
  "DATASTORE_NAME = ''''"

definition data_cell ::
  "'w platform \<Rightarrow> workspace \<Rightarrow> ('w, dataset \<times> datastore \<times> pipeline_data) prog" where
  "data_cell P ws =
     bind (invoke (GetByName ws DATASET_NAME) (Dataset_get_by_name P ws DATASET_NAME))
       (\<lambda>input_dataset.
     bind (invoke (GetDatastore ws DATASTORE_NAME) (Datastore_init P ws DATASTORE_NAME))
       (\<lambda>datastore.
     return (input_dataset, datastore,
             \<lparr>pd_name = ''training_data'', pd_datastore = datastore\<rparr>)))"

text \<open>
  \<^verbatim>\<open>
  my_inputs = None
  if isinstance(input_dataset, FileDataset):
      my_inputs = [input_dataset.as_named_input(input_dataset.name).as_mount()]
  elif isinstance(input_dataset, TabularDataset):
      my_inputs = [input_dataset.as_named_input(input_dataset.name)]
  \<close>
\<close>

definition my_inputs :: "dataset \<Rightarrow> step_input list option" where
  "my_inputs input_dataset =
     (if isinstance_FileDataset input_dataset
      then Some [DatasetInput
                   (as_mount (as_named_input input_dataset (dataset_name input_dataset)))]
      else if isinstance_TabularDataset input_dataset
      then Some [DatasetInput (as_named_input input_dataset (dataset_name input_dataset))]
      else None)"

text \<open>The two steps, as functions of the variables their cells read.\<close>

definition data_prep_step ::
  "dataset \<Rightarrow> pipeline_data \<Rightarrow> compute \<Rightarrow> run_configuration \<Rightarrow> python_script_step" where
  "data_prep_step input_dataset training_data aml_compute run_config =
     \<lparr>script_name = ''data_prep.py'',
      step_name = ''data_prep_step'',
      arguments = [ArgStr ''--input_dataset'', ArgStr (dataset_name input_dataset),
                   ArgStr ''--output_folder'', ArgData training_data],
      compute_target = Some aml_compute,
      runconfig = run_config,
      inputs = my_inputs input_dataset,
      outputs = [training_data],
      source_directory = ''scripts/01-data-prep''\<rparr>"

definition param1 :: pipeline_parameter where
  "param1 = \<lparr>pp_name = ''param1'', pp_default_value = 1.0\<rparr>"

definition train_step ::
  "pipeline_data \<Rightarrow> pipeline_parameter \<Rightarrow> compute \<Rightarrow> run_configuration \<Rightarrow> python_script_step"
  where
  "train_step training_data p aml_compute run_config =
     \<lparr>script_name = ''train.py'',
      step_name = ''training_step'',
      arguments = [ArgStr ''--training_data'', ArgData training_data,
                   ArgStr ''--param1'', ArgParam p],
      compute_target = Some aml_compute,
      runconfig = run_config,
      inputs = Some [DataSlot training_data],
      outputs = [],
      source_directory = ''scripts/02-train''\<rparr>"

text \<open>
  \<^verbatim>\<open>
  pipeline = Pipeline(workspace=ws, steps=[data_prep_step, train_step],
                      description="a 2-step data prep and training pipeline")
  \<close>
\<close>

definition build_pipeline ::
  "workspace \<Rightarrow> python_script_step \<Rightarrow> python_script_step \<Rightarrow> pipeline" where
  "build_pipeline ws prep train =
     \<lparr>pl_workspace = ws, steps = [prep, train],
      pl_description = ''a 2-step data prep and training pipeline''\<rparr>"

text \<open>The cells that build the two steps and the pipeline call no platform service:
  each returns its descriptor.\<close>

definition data_prep_cell ::
  "dataset \<Rightarrow> pipeline_data \<Rightarrow> compute \<Rightarrow> run_configuration \<Rightarrow> ('w, python_script_step) prog"
  where
  "data_prep_cell input_dataset training_data aml_compute run_config =
     return (data_prep_step input_dataset training_data aml_compute run_config)"

definition train_cell ::
  "pipeline_data \<Rightarrow> compute \<Rightarrow> run_configuration \<Rightarrow> ('w, python_script_step) prog" where
  "train_cell training_data aml_compute run_config =
     return (train_step training_data param1 aml_compute run_config)"

definition pipeline_cell ::
  "workspace \<Rightarrow> python_script_step \<Rightarrow> python_script_step \<Rightarrow> ('w, pipeline) prog" where
  "pipeline_cell ws prep train = return (build_pipeline ws prep train)"

text \<open>
  \<^verbatim>\<open>
  pipeline.validate()
  pipeline.submit(experiment_name="pipeline-test", regenerate_outputs=True)
  \<close>
  and, in the next cell, \<^verbatim>\<open>published_pipeline = pipeline.publish()\<close>.
\<close>

definition test_cell :: "'w platform \<Rightarrow> pipeline \<Rightarrow> ('w, run) prog" where
  "test_cell P pl =
     bind (invoke (Validate pl) (Pipeline_validate P pl)) (\<lambda>u.
     invoke (Submit pl ''pipeline-test'' True) (Pipeline_submit P pl ''pipeline-test'' True))"

definition publish_cell :: "'w platform \<Rightarrow> pipeline \<Rightarrow> ('w, published_pipeline) prog" where
  "publish_cell P pl = invoke (Publish pl) (Pipeline_publish P pl)"

text \<open>
  Option 1, the schedule on recurrence:
  \<^verbatim>\<open>
  recurrence = ScheduleRecurrence(frequency="Day", interval=2, hours=[22], minutes=[30])
  schedule = Schedule.create(workspace=ws, name="My_Schedule",
                             pipeline_id=published_pipeline.id,
                             experiment_name='Schedule_Run', recurrence=recurrence,
                             wait_for_provisioning=True, description="Schedule Run")
  print("Created schedule with id: {}".format(schedule.id))
  \<close>
\<close>

definition the_recurrence :: schedule_recurrence where
  "the_recurrence = \<lparr>frequency = ''Day'', interval = 2, hours = [22], minutes = [30]\<rparr>"

definition recurrence_request :: "workspace \<Rightarrow> published_pipeline \<Rightarrow> schedule_request" where
  "recurrence_request ws published =
     \<lparr>sc_workspace = ws, sc_name = ''My_Schedule'',
      pipeline_id = published_pipeline_id published,
      experiment_name = ''Schedule_Run'',
      recurrence = Some the_recurrence,
      sc_datastore = None, polling_interval = None, path_on_datastore = None,
      wait_for_provisioning = True, sc_description = ''Schedule Run''\<rparr>"

definition created_line :: "schedule \<Rightarrow> string" where
  "created_line sch = ''Created schedule with id: '' @ schedule_id sch"

definition recurrence_cell ::
  "'w platform \<Rightarrow> workspace \<Rightarrow> published_pipeline \<Rightarrow> ('w, schedule) prog" where
  "recurrence_cell P ws published =
     bind (invoke (CreateSchedule (recurrence_request ws published))
             (Schedule_create P (recurrence_request ws published))) (\<lambda>sch.
     bind (print (created_line sch)) (\<lambda>u.
     return sch))"

text \<open>
  Option 2, the schedule on datastore change:
  \<^verbatim>\<open>
  schedule = Schedule.create(workspace=ws, name="My_Schedule",
                             pipeline_id=published_pipeline.id,
                             experiment_name='Schedule_Run', datastore=datastore,
                             wait_for_provisioning=True, description="Schedule Run")
  print("Created schedule with id: {}".format(schedule.id))
  \<close>
\<close>

definition datastore_request ::
  "workspace \<Rightarrow> published_pipeline \<Rightarrow> datastore \<Rightarrow> schedule_request" where
  "datastore_request ws published ds =
     \<lparr>sc_workspace = ws, sc_name = ''My_Schedule'',
      pipeline_id = published_pipeline_id published,
      experiment_name = ''Schedule_Run'',
      recurrence = None,
      sc_datastore = Some ds, polling_interval = None, path_on_datastore = None,
      wait_for_provisioning = True, sc_description = ''Schedule Run''\<rparr>"

definition datastore_cell ::
  "'w platform \<Rightarrow> workspace \<Rightarrow> published_pipeline \<Rightarrow> datastore \<Rightarrow> ('w, schedule) prog" where
  "datastore_cell P ws published ds =
     bind (invoke (CreateSchedule (datastore_request ws published ds))
             (Schedule_create P (datastore_request ws published ds))) (\<lambda>sch.
     bind (print (created_line sch)) (\<lambda>u.
     return sch))"

subsection \<open>The notebook, run from its first cell to its last\<close>

text \<open>The variables the notebook has bound when its last cell returns.\<close>

record variables =
  v_ws :: workspace
  v_aml_compute :: compute
  v_run_config :: run_configuration
  v_input_dataset :: dataset
  v_datastore :: datastore
  v_training_data :: pipeline_data
  v_data_prep_step :: python_script_step
  v_train_step :: python_script_step
  v_pipeline :: pipeline
  v_published_pipeline :: published_pipeline
  v_schedule :: schedule

text \<open>The cells of Python, from \<open>Workspace.from_config()\<close> to the second schedule.\<close>

definition python_cells :: "'w platform \<Rightarrow> ('w, variables) prog" where
  "python_cells P =
     bind (workspace_cell P) (\<lambda>ws.
     bind (compute_cell P ws aml_compute_target) (\<lambda>aml_compute.
     bind (environment_cell P) (\<lambda>run_config.
     bind (data_cell P ws) (\<lambda>(input_dataset, datastore, training_data).
     bind (data_prep_cell input_dataset training_data aml_compute run_config) (\<lambda>prep.
     bind (train_cell training_data aml_compute run_config) (\<lambda>train.
     bind (pipeline_cell ws prep train) (\<lambda>pl.
     bind (test_cell P pl) (\<lambda>r.
     bind (publish_cell P pl) (\<lambda>published.
     bind (recurrence_cell P ws published) (\<lambda>sch1.
     bind (datastore_cell P ws published datastore) (\<lambda>sch2.
     return \<lparr>v_ws = ws, v_aml_compute = aml_compute, v_run_config = run_config,
             v_input_dataset = input_dataset, v_datastore = datastore,
             v_training_data = training_data, v_data_prep_step = prep,
             v_train_step = train, v_pipeline = pl,
             v_published_pipeline = published, v_schedule = sch2\<rparr>)))))))))))"

text \<open>The notebook: the shell cell, then the cells of Python.\<close>

definition notebook :: "'w platform \<Rightarrow> ('w, variables) prog" where
  "notebook P = bind (bash_cell P) (\<lambda>u. python_cells P)"

definition start :: "'w \<Rightarrow> 'w nb_state" where
  "start w = \<lparr>world = w, trace = [], stdout = [], shell_log = []\<rparr>"

definition run_notebook :: "'w platform \<Rightarrow> 'w \<Rightarrow> (exn + variables) \<times> 'w nb_state" where
  "run_notebook P w = notebook P (start w)"

section \<open>What the trace of a run says\<close>


fun created_schedules :: "(call \<times> exn option) list \<Rightarrow> schedule_request list" where
  "created_schedules [] = []"
| "created_schedules ((CreateSchedule q, None) # tr) = q # created_schedules tr"
| "created_schedules (x # tr) = created_schedules tr"


text \<open>
  The discipline of exceptions in a trace, against the outcome of the run: a call that
  returned is followed by the rest of the run; a lookup of a compute target that raised
  \<open>ComputeTargetException\<close> is followed by the request to create the target of that
  name in that workspace; any other exception is the last entry of the trace and the
  outcome of the run; and a run that issued no further call ended without an exception.
\<close>

fun propagates :: "(call \<times> exn option) list \<Rightarrow> exn option \<Rightarrow> bool" where
  "propagates [] res = (res = None)"
| "propagates ((c, None) # tr) res = propagates tr res"
| "propagates ((Lookup ws n, Some ComputeTargetException) # tr) res =
     (case tr of
        (Create ws' n' cfg, r) # tr' \<Rightarrow> ws' = ws \<and> n' = n \<and> propagates tr res
      | other \<Rightarrow> False)"
| "propagates ((c, Some e) # tr) res = (tr = [] \<and> res = Some e)"

subsection \<open>Properties of what a program adds to the trace\<close>

text \<open>\<open>tracks R m\<close>: whatever \<open>m\<close> adds to the trace, with the outcome of \<open>m\<close>,
  satisfies \<open>R\<close>. It is kept by sequencing when \<open>R\<close> is composable.\<close>

definition tracks ::
  "((call \<times> exn option) list \<Rightarrow> exn option \<Rightarrow> bool) \<Rightarrow> ('w, 'a) prog \<Rightarrow> bool" where
  "tracks R m \<longleftrightarrow>
     (\<forall>s r s'. m s = (r, s') \<longrightarrow> (\<exists>new. trace s' = trace s @ new \<and> R new (outcome r)))"

definition composable :: "((call \<times> exn option) list \<Rightarrow> exn option \<Rightarrow> bool) \<Rightarrow> bool" where
  "composable R \<longleftrightarrow> R [] None \<and> (\<forall>a b res. R a None \<longrightarrow> R b res \<longrightarrow> R (a @ b) res)"


text \<open>The calls of a run after the compute cell, when each of them returns.\<close>

definition tail_calls :: "variables \<Rightarrow> (call \<times> exn option) list" where
  "tail_calls v =
     [(FromCondaSpecification ''my_pipeline'' ''./conda_dependencies.yml'', None),
      (GetByName (v_ws v) DATASET_NAME, None),
      (GetDatastore (v_ws v) DATASTORE_NAME, None),
      (Validate (v_pipeline v), None),
      (Submit (v_pipeline v) ''pipeline-test'' True, None),
      (Publish (v_pipeline v), None),
      (CreateSchedule (recurrence_request (v_ws v) (v_published_pipeline v)), None),
      (CreateSchedule
         (datastore_request (v_ws v) (v_published_pipeline v) (v_datastore v)), None)]"

subsection \<open>A contract of the platform\<close>

text \<open>
  The platform keeps the compute targets it resolves and creates: a name that resolved to
  a target resolves to it again, and a target created under a name, once the wait for it
  has returned, is what the name resolves to.
\<close>

definition resolves_created :: "'w platform \<Rightarrow> bool" where
  "resolves_created P \<longleftrightarrow>
     (\<forall>ws n w t w'. AmlCompute_init P ws n w = (Inr t, w') \<longrightarrow>
        fst (AmlCompute_init P ws n w') = Inr t)
     \<and> (\<forall>ws n cfg w t w1 out mn tmo w2.
        ComputeTarget_create P ws n cfg w = (Inr t, w1) \<longrightarrow>
        wait_for_completion P t out mn tmo w1 = (Inr (), w2) \<longrightarrow>
        fst (AmlCompute_init P ws n w2) = Inr t)"

section \<open>The platform, as the specification describes it\<close>

subsection \<open>The pipeline graph and its validation\<close>

text \<open>
  Modelled from the spec: the graph of a pipeline and its validation are the work of the
  vendor SDK (\<open>Pipeline\<close>, \<open>pipeline.validate()\<close>), which is not in the repository.
  The specification's contract: an edge exists from step A to step B if B declares an
  input slot that A declares as an output slot; validation fails with a
  \<open>ConfigurationError\<close> if a declared input slot has no producing step, a compute
  target name is unset, or a required named dataset does not exist.
\<close>

fun input_slots_of :: "step_input list \<Rightarrow> pipeline_data list" where
  "input_slots_of [] = []"
| "input_slots_of (DataSlot slot # xs) = slot # input_slots_of xs"
| "input_slots_of (DatasetInput b # xs) = input_slots_of xs"

definition input_slots :: "python_script_step \<Rightarrow> pipeline_data list" where
  "input_slots st = (case inputs st of None \<Rightarrow> [] | Some xs \<Rightarrow> input_slots_of xs)"

fun bound_dataset :: "dataset_binding \<Rightarrow> dataset" where
  "bound_dataset (as_named_input d n) = d"
| "bound_dataset (as_mount b) = bound_dataset b"

fun datasets_of :: "step_input list \<Rightarrow> string list" where
  "datasets_of [] = []"
| "datasets_of (DatasetInput b # xs) = dataset_name (bound_dataset b) # datasets_of xs"
| "datasets_of (DataSlot slot # xs) = datasets_of xs"

definition required_datasets :: "python_script_step \<Rightarrow> string list" where
  "required_datasets st = (case inputs st of None \<Rightarrow> [] | Some xs \<Rightarrow> datasets_of xs)"

text \<open>Modelled from the spec: an edge exists from step A to step B if B declares an
  input slot that A declares as an output slot.\<close>

definition edge :: "python_script_step \<Rightarrow> python_script_step \<Rightarrow> bool" where
  "edge A B = list_ex (\<lambda>slot. slot \<in> set (outputs A)) (input_slots B)"

text \<open>Modelled from the spec: the directed graph of a list of steps, as the list of
  its edges.\<close>

definition graph ::
  "python_script_step list \<Rightarrow> (python_script_step \<times> python_script_step) list" where
  "graph sts = concat (map (\<lambda>A. map (\<lambda>B. (A, B)) (filter (edge A) sts)) sts)"

text \<open>Modelled from the spec: the failure of validation.\<close>

definition ConfigurationError :: exn where
  "ConfigurationError = OtherException ''ConfigurationError''"

text \<open>Modelled from the spec: the check of one step, against the slots the pipeline
  produces and the names of the registered datasets. A declared input slot with no
  producing step, an unset compute target and a required dataset that is not registered
  each fail the check.\<close>

definition check_step ::
  "string list \<Rightarrow> pipeline_data list \<Rightarrow> python_script_step \<Rightarrow> exn + unit" where
  "check_step registered produced st =
     (if list_ex (\<lambda>slot. slot \<notin> set produced) (input_slots st)
      then Inl ConfigurationError
      else if compute_target st = None then Inl ConfigurationError
      else if list_ex (\<lambda>n. n \<notin> set registered) (required_datasets st)
      then Inl ConfigurationError
      else Inr ())"

text \<open>Modelled from the spec: the steps are checked in order and the first failure is
  raised.\<close>

fun check_steps ::
  "string list \<Rightarrow> pipeline_data list \<Rightarrow> python_script_step list \<Rightarrow> exn + unit" where
  "check_steps registered produced [] = Inr ()"
| "check_steps registered produced (st # sts) =
     (case check_step registered produced st of
        Inl e \<Rightarrow> Inl e
      | Inr u \<Rightarrow> check_steps registered produced sts)"

text \<open>Modelled from the spec: validation of a pipeline, given the names of the
  registered datasets, checks every step against the outputs of all its steps.\<close>

definition validate :: "string list \<Rightarrow> pipeline \<Rightarrow> exn + unit" where
  "validate registered pl =
     check_steps registered (concat (map outputs (steps pl))) (steps pl)"

subsection \<open>Recurrence rules\<close>

text \<open>
  Modelled from the spec: the platform evaluates a recurrence as a cron-like rule
  (frequency, interval, time of day); the evaluation is not in the repository. A
  recurrence of frequency \<open>Day\<close> and interval \<open>k\<close> fires on every \<open>k\<close>-th day,
  counted from the day the schedule starts, at each of its hours and minutes. Other
  frequencies are outside this reading.
\<close>

definition fires :: "schedule_recurrence \<Rightarrow> nat \<Rightarrow> nat \<Rightarrow> nat \<Rightarrow> bool" where
  "fires r d h m \<longleftrightarrow>
     frequency r = ''Day'' \<and> d mod interval r = 0
     \<and> h \<in> set (hours r) \<and> m \<in> set (minutes r)"

subsection \<open>A reference platform\<close>

text \<open>
  Modelled from the spec: a platform that keeps registries of compute targets, datasets
  and datastores, and the pipelines published. Resolving a compute target by a name that
  is not registered raises \<open>ComputeTargetException\<close>; creating one registers it under
  its name with its sizing bounds; waiting for it returns when provisioning takes no
  longer than the timeout and raises \<open>ProvisioningTimeout\<close> otherwise. A request for
  a schedule is accepted; what the platform keeps of the schedules of a pipeline is left
  open, as the specification leaves it. A shell command exits with the status the world
  lists for it, and with 0 when it lists none. It stands for the service in the examples
  below.
\<close>

record cloud =
  compute_targets :: "(string \<times> provisioning_configuration) list"
  provisioning_minutes :: nat
  datasets :: "(string \<times> dataset) list"
  datastores :: "string list"
  published :: "pipeline list"
  command_status :: "(string \<times> nat) list"

definition cloud_command :: "string \<Rightarrow> cloud \<Rightarrow> nat \<times> cloud" where
  "cloud_command cmd w =
     (case map_of (command_status w) cmd of None \<Rightarrow> (0, w) | Some k \<Rightarrow> (k, w))"

definition cloud_lookup :: "workspace \<Rightarrow> string \<Rightarrow> (cloud, compute) sdk" where
  "cloud_lookup ws n w =
     (case map_of (compute_targets w) n of
        None \<Rightarrow> (Inl ComputeTargetException, w)
      | Some cfg \<Rightarrow> (Inr (Compute n), w))"

definition cloud_create ::
  "workspace \<Rightarrow> string \<Rightarrow> provisioning_configuration \<Rightarrow> (cloud, compute) sdk" where
  "cloud_create ws n cfg w =
     (Inr (Compute n), w\<lparr>compute_targets := (n, cfg) # compute_targets w\<rparr>)"

definition cloud_wait :: "compute \<Rightarrow> bool \<Rightarrow> nat option \<Rightarrow> nat \<Rightarrow> (cloud, unit) sdk" where
  "cloud_wait c show_output min_node_count timeout_in_minutes w =
     (if provisioning_minutes w \<le> timeout_in_minutes then (Inr (), w)
      else (Inl (OtherException ''ProvisioningTimeout''), w))"

definition cloud_dataset :: "workspace \<Rightarrow> string \<Rightarrow> (cloud, dataset) sdk" where
  "cloud_dataset ws n w =
     (case map_of (datasets w) n of
        None \<Rightarrow> (Inl (OtherException ''UserErrorException''), w)
      | Some d \<Rightarrow> (Inr d, w))"

definition cloud_datastore :: "workspace \<Rightarrow> string \<Rightarrow> (cloud, datastore) sdk" where
  "cloud_datastore ws n w =
     (if n \<in> set (datastores w) then (Inr (Datastore n), w)
      else (Inl (OtherException ''HttpOperationError''), w))"

definition cloud_publish :: "pipeline \<Rightarrow> (cloud, published_pipeline) sdk" where
  "cloud_publish pl w =
     (Inr (PublishedPipeline ''published-pipeline''), w\<lparr>published := published w @ [pl]\<rparr>)"

definition cloud_schedule :: "schedule_request \<Rightarrow> (cloud, schedule) sdk" where
  "cloud_schedule q w = (Inr (Schedule (sc_name q)), w)"

text \<open>Modelled from the spec: the SDK calls on the reference platform.\<close>

definition cloud_platform :: "cloud platform" where
  "cloud_platform =
     \<lparr>run_command = cloud_command,
      Workspace_from_config = (\<lambda>w. (Inr (Workspace ''workspace''), w)),
      AmlCompute_init = cloud_lookup,
      ComputeTarget_create = cloud_create,
      wait_for_completion = cloud_wait,
      Environment_from_conda_specification = (\<lambda>n f w. (Inr (Environment n), w)),
      Dataset_get_by_name = cloud_dataset,
      Datastore_init = cloud_datastore,
      Pipeline_validate = (\<lambda>pl w. (validate (map fst (datasets w)) pl, w)),
      Pipeline_submit = (\<lambda>pl e regenerate w. (Inr (Run e), w)),
      Pipeline_publish = cloud_publish,
      Schedule_create = cloud_schedule\<rparr>"

text \<open>A world with no compute target, where a tabular dataset and a datastore are
  registered under the empty name and every shell command succeeds; one where the
  dataset is missing; and one where the installation of yapf fails with status 1 and the
  linting of the data-prep script finds errors and exits with status 2.\<close>

definition fresh_cloud :: cloud where
  "fresh_cloud =
     \<lparr>compute_targets = [], provisioning_minutes = 5,
      datasets = [('''', TabularDataset '''')], datastores = [''''],
      published = [], command_status = []\<rparr>"

definition bare_cloud :: cloud where
  "bare_cloud = fresh_cloud\<lparr>datasets := []\<rparr>"

definition lint_errors_cloud :: cloud where
  "lint_errors_cloud =
     fresh_cloud\<lparr>command_status := [(install_yapf, 1), (lint_data_prep, 2)]\<rparr>"

section \<open>Reasoning about runs\<close>

subsection \<open>Sequencing, calls and output\<close>

lemma bind_Inr:
  "bind m f s = (Inr y, s'') \<longleftrightarrow> (\<exists>x s'. m s = (Inr x, s') \<and> f x s' = (Inr y, s''))"
  by (auto simp: bind_def split: prod.splits sum.splits)

lemma bind_Inl:
  "bind m f s = (Inl e, s'') \<longleftrightarrow>
     m s = (Inl e, s'') \<or> (\<exists>x s'. m s = (Inr x, s') \<and> f x s' = (Inl e, s''))"
  by (auto simp: bind_def split: prod.splits sum.splits)

lemma invoke_eq:
  "invoke c f s = (r, s') \<longleftrightarrow>
     (\<exists>w'. f (world s) = (r, w')
          \<and> s' = s\<lparr>world := w', trace := trace s @ [(c, outcome r)]\<rparr>)"
  by (auto simp: invoke_def split: prod.splits)

lemma print_eq:
  "print l s = (r, s') \<longleftrightarrow> r = Inr () \<and> s' = s\<lparr>stdout := stdout s @ [l]\<rparr>"
  by (auto simp: print_def)

lemma return_eq: "return x s = (r, s') \<longleftrightarrow> r = Inr x \<and> s' = s"
  by (auto simp: return_def)

subsection \<open>The runs of the compute cell\<close>

text \<open>The five ways the compute cell can run, by what it adds to the trace.\<close>

lemma compute_cell_cases:
  assumes "compute_cell P ws n s = (r, s1)"
  shows "(\<exists>t. r = Inr t \<and> trace s1 = trace s @ [(Lookup ws n, None)])
       \<or> (\<exists>e. e \<noteq> ComputeTargetException \<and> r = Inl e
              \<and> trace s1 = trace s @ [(Lookup ws n, Some e)])
       \<or> (\<exists>e. r = Inl e
              \<and> trace s1 = trace s @ [(Lookup ws n, Some ComputeTargetException),
                   (Create ws n provisioning_config, Some e)])
       \<or> (\<exists>e t. r = Inl e
              \<and> trace s1 = trace s @ [(Lookup ws n, Some ComputeTargetException),
                   (Create ws n provisioning_config, None),
                   (WaitForCompletion t True None 20, Some e)])
       \<or> (\<exists>t. r = Inr t
              \<and> trace s1 = trace s @ [(Lookup ws n, Some ComputeTargetException),
                   (Create ws n provisioning_config, None),
                   (WaitForCompletion t True None 20, None)])"
  using assms
  by (cases r)
     (auto simp: compute_cell_def try_except_def lookup_compute_def create_compute_def
        bind_Inr bind_Inl invoke_eq print_eq return_eq outcome_def
        split: prod.splits sum.splits if_splits)

lemma compute_cell_success:
  assumes "compute_cell P ws n s = (Inr t, s1)"
  shows "trace s1 = trace s @ [(Lookup ws n, None)]
       \<or> trace s1 = trace s @ [(Lookup ws n, Some ComputeTargetException),
            (Create ws n provisioning_config, None),
            (WaitForCompletion t True None 20, None)]"
  using compute_cell_cases[OF assms] by auto

subsection \<open>Sequencing keeps composable properties\<close>

lemma tracks_return: "composable R \<Longrightarrow> tracks R (return x)"
  by (simp add: tracks_def composable_def return_def outcome_def)

lemma tracks_print: "composable R \<Longrightarrow> tracks R (print l)"
  by (simp add: tracks_def composable_def print_def outcome_def)

lemma tracks_invoke: "(\<And>res. R [(c, res)] res) \<Longrightarrow> tracks R (invoke c f)"
  by (auto simp: tracks_def invoke_def split: prod.splits)

lemma tracks_case_prod:
  "(\<And>a b. tracks R (f a b)) \<Longrightarrow> tracks R (case x of (a, b) \<Rightarrow> f a b)"
  by (cases x) simp

lemma tracks_bind:
  assumes R: "composable R" and m: "tracks R m" and f: "\<And>x. tracks R (f x)"
  shows "tracks R (bind m f)"
  unfolding tracks_def
proof (intro allI impI)
  fix s r s' assume run: "bind m f s = (r, s')"
  obtain r1 s1 where m1: "m s = (r1, s1)" by (cases "m s")
  from m m1 obtain a where a: "trace s1 = trace s @ a" "R a (outcome r1)"
    unfolding tracks_def by blast
  show "\<exists>new. trace s' = trace s @ new \<and> R new (outcome r)"
  proof (cases r1)
    case (Inl e)
    with run m1 have "r = Inl e" "s' = s1" by (simp_all add: bind_def)
    with a Inl show ?thesis by (auto simp: outcome_def)
  next
    case (Inr x)
    with run m1 have "f x s1 = (r, s')" by (simp add: bind_def)
    with f[of x] obtain b where b: "trace s' = trace s1 @ b" "R b (outcome r)"
      unfolding tracks_def by blast
    from a Inr have "R a None" by (simp add: outcome_def)
    with R b have "R (a @ b) (outcome r)" unfolding composable_def by blast
    with a b show ?thesis by auto
  qed
qed

subsection \<open>The shell cell\<close>

text \<open>The shell cell runs its seven commands, adds nothing to the trace and raises
  nothing, whatever the exit statuses.\<close>

lemma bash_cell_run:
  "\<exists>s'. bash_cell P s = (Inr (), s') \<and> trace s' = trace s
        \<and> map fst (shell_log s') = map fst (shell_log s) @ bash_commands"
  by (simp add: bash_cell_def bash_script_def bash_commands_def sh_def bind_def return_def
        split: prod.splits)

lemma bash_cell_result:
  assumes "bash_cell P s = (r, s')"
  shows "r = Inr () \<and> trace s' = trace s"
  using bash_cell_run[of P s] assms by auto

lemma tracks_bash_cell: "composable R \<Longrightarrow> tracks R (bash_cell P)"
  unfolding tracks_def composable_def
  by (auto dest!: bash_cell_result simp: outcome_def)

subsection \<open>Exceptions in the trace\<close>

lemma propagates_append:
  "propagates a None \<Longrightarrow> propagates b res \<Longrightarrow> propagates (a @ b) res"
  by (induction a "None :: exn option" rule: propagates.induct)
     (auto split: list.splits prod.splits call.splits)

lemma composable_propagates: "composable propagates"
  by (simp add: composable_def propagates_append)

lemma propagates_raised:
  "e \<noteq> ComputeTargetException \<Longrightarrow> propagates [(c, Some e)] (Some e)"
  by (cases e; cases c) auto

lemma propagates_single:
  "\<not> (\<exists>ws n. c = Lookup ws n) \<Longrightarrow> propagates [(c, res)] res"
  by (cases c; cases res) auto

lemma tracks_compute_cell: "tracks propagates (compute_cell P ws n)"
  unfolding tracks_def
proof (intro allI impI)
  fix s r s' assume "compute_cell P ws n s = (r, s')"
  from compute_cell_cases[OF this]
  show "\<exists>new. trace s' = trace s @ new \<and> propagates new (outcome r)"
    by (auto simp: outcome_def propagates_raised)
qed

lemma tracks_python_cells: "tracks propagates (python_cells P)"
  unfolding python_cells_def workspace_cell_def environment_cell_def data_cell_def
    data_prep_cell_def train_cell_def pipeline_cell_def test_cell_def publish_cell_def
    recurrence_cell_def datastore_cell_def
  by (intro tracks_bind tracks_case_prod tracks_compute_cell tracks_invoke tracks_return
        tracks_print composable_propagates propagates_single) auto

lemma tracks_notebook: "tracks propagates (notebook P)"
  unfolding notebook_def
  by (intro tracks_bind tracks_bash_cell tracks_python_cells composable_propagates)

subsection \<open>The runs that complete\<close>

text \<open>What the trace and the variables of a completed run are.\<close>

lemma python_cells_success:
  assumes "python_cells P s0 = (Inr v, s)"
  shows "(trace s = trace s0
            @ [(FromConfig, None), (Lookup (v_ws v) aml_compute_target, None)] @ tail_calls v
       \<or> trace s = trace s0
            @ [(FromConfig, None),
               (Lookup (v_ws v) aml_compute_target, Some ComputeTargetException),
               (Create (v_ws v) aml_compute_target provisioning_config, None),
               (WaitForCompletion (v_aml_compute v) True None 20, None)] @ tail_calls v)
     \<and> v_training_data v = \<lparr>pd_name = ''training_data'', pd_datastore = v_datastore v\<rparr>
     \<and> v_data_prep_step v
         = data_prep_step (v_input_dataset v) (v_training_data v) (v_aml_compute v)
             (v_run_config v)
     \<and> v_train_step v
         = train_step (v_training_data v) param1 (v_aml_compute v) (v_run_config v)
     \<and> v_pipeline v = build_pipeline (v_ws v) (v_data_prep_step v) (v_train_step v)"
  using assms
  unfolding python_cells_def workspace_cell_def environment_cell_def data_cell_def
    data_prep_cell_def train_cell_def pipeline_cell_def test_cell_def publish_cell_def
    recurrence_cell_def datastore_cell_def tail_calls_def
  apply (clarsimp simp: bind_Inr invoke_eq print_eq return_eq outcome_def split: prod.splits)
  apply (drule compute_cell_success)
  apply auto
  done

lemma notebook_success:
  assumes "notebook P s0 = (Inr v, s)"
  shows "(trace s = trace s0
            @ [(FromConfig, None), (Lookup (v_ws v) aml_compute_target, None)] @ tail_calls v
       \<or> trace s = trace s0
            @ [(FromConfig, None),
               (Lookup (v_ws v) aml_compute_target, Some ComputeTargetException),
               (Create (v_ws v) aml_compute_target provisioning_config, None),
               (WaitForCompletion (v_aml_compute v) True None 20, None)] @ tail_calls v)
     \<and> v_training_data v = \<lparr>pd_name = ''training_data'', pd_datastore = v_datastore v\<rparr>
     \<and> v_data_prep_step v
         = data_prep_step (v_input_dataset v) (v_training_data v) (v_aml_compute v)
             (v_run_config v)
     \<and> v_train_step v
         = train_step (v_training_data v) param1 (v_aml_compute v) (v_run_config v)
     \<and> v_pipeline v = build_pipeline (v_ws v) (v_data_prep_step v) (v_train_step v)"
proof -
  from assms obtain u s1
    where sh: "bash_cell P s0 = (Inr u, s1)" and py: "python_cells P s1 = (Inr v, s)"
    by (auto simp: notebook_def bind_Inr)
  from bash_cell_result[OF sh] have "trace s1 = trace s0" by simp
  with python_cells_success[OF py] show ?thesis by simp
qed


subsection \<open>Resource names in the trace\<close>







subsection \<open>The compute cell on a platform that keeps its targets\<close>

lemma compute_cell_found:
  assumes "AmlCompute_init P ws n (world s) = (Inr t, w')"
  shows "\<exists>s1. compute_cell P ws n s = (Inr t, s1)
              \<and> trace s1 = trace s @ [(Lookup ws n, None)]"
  using assms
  by (simp add: compute_cell_def try_except_def lookup_compute_def bind_def invoke_def
        print_def return_def outcome_def)

lemma compute_cell_resolves:
  assumes law: "resolves_created P" and run: "compute_cell P ws n s = (Inr t, s1)"
  shows "fst (AmlCompute_init P ws n (world s1)) = Inr t"
proof -
  from run consider
    (found) w' where "AmlCompute_init P ws n (world s) = (Inr t, w')" "world s1 = w'"
  | (created) w0 w1 w2
      where "ComputeTarget_create P ws n provisioning_config w0 = (Inr t, w1)"
        "wait_for_completion P t True None 20 w1 = (Inr (), w2)" "world s1 = w2"
    by (auto simp: compute_cell_def try_except_def lookup_compute_def create_compute_def
        bind_Inr bind_Inl invoke_eq print_eq return_eq
        split: prod.splits sum.splits if_splits)
  then show ?thesis
  proof cases
    case found
    with law show ?thesis unfolding resolves_created_def by metis
  next
    case created
    with law show ?thesis unfolding resolves_created_def by metis
  qed
qed

lemma resolves_created_cloud: "resolves_created cloud_platform"
  unfolding resolves_created_def
  by (auto simp: cloud_platform_def cloud_lookup_def cloud_create_def cloud_wait_def
        split: option.splits if_splits)

subsection \<open>The graph of the two steps and the checks of validation\<close>

lemma input_slots_data_prep: "input_slots (data_prep_step d td c rc) = []"
  by (cases d) (simp_all add: input_slots_def data_prep_step_def my_inputs_def)

lemma input_slots_train: "input_slots (train_step td p c rc) = [td]"
  by (simp add: input_slots_def train_step_def)

lemma outputs_steps:
  "outputs (data_prep_step d td c rc) = [td]" "outputs (train_step td' p c' rc') = []"
  by (simp_all add: data_prep_step_def train_step_def)

lemma edge_steps:
  "edge (data_prep_step d out c rc) (train_step inp p c' rc') \<longleftrightarrow> out = inp"
  "\<not> edge (data_prep_step d out c rc) (data_prep_step d' out' c' rc')"
  "\<not> edge (train_step inp p c rc) B"
  by (auto simp: edge_def input_slots_data_prep input_slots_train outputs_steps list_ex_iff)

lemma check_step_train_unproduced:
  "inp \<notin> set produced \<Longrightarrow>
   check_step registered produced (train_step inp p c rc) = Inl ConfigurationError"
  by (simp add: check_step_def input_slots_train)

lemma check_step_raises:
  "check_step registered produced st = Inl e \<Longrightarrow> e = ConfigurationError"
  by (simp add: check_step_def split: if_splits)

lemma check_steps_result:
  "check_steps registered produced sts =
     (if \<exists>st \<in> set sts. check_step registered produced st = Inl ConfigurationError
      then Inl ConfigurationError else Inr ())"
proof (induction sts)
  case Nil
  show ?case by simp
next
  case (Cons st sts)
  have "check_step registered produced st = Inl ConfigurationError
        \<or> check_step registered produced st = Inr ()"
    by (simp add: check_step_def)
  with Cons show ?case by auto
qed

subsection \<open>A completed run on the reference platform\<close>

lemma fresh_run_completes:
  "\<exists>v. run_notebook cloud_platform fresh_cloud
         = (Inr v, snd (run_notebook cloud_platform fresh_cloud))
       \<and> v = projr (fst (run_notebook cloud_platform fresh_cloud))"
proof -
  have "isl (fst (run_notebook cloud_platform fresh_cloud)) = False" by code_simp
  then show ?thesis
    by (cases "fst (run_notebook cloud_platform fresh_cloud)") (auto simp: prod_eq_iff)
qed

section \<open>The claims\<close>

text \<open>
  C1. The compute cell is a lookup-or-create. In every run of the cell the lookup is the
  first call; the target is created only after the lookup raised
  \<open>ComputeTargetException\<close>, and the cell then waits for it with a timeout of 20
  minutes; any other exception ends the cell. On a platform that keeps the targets it
  resolves and creates, a second run of the cell with the same name returns the same
  target and adds the lookup to the trace and nothing else: no second request to create.
\<close>

theorem resolve_or_create_idempotent:
  assumes law: "resolves_created P" and run: "compute_cell P ws n s = (r, s1)"
  shows "((\<exists>t. r = Inr t \<and> trace s1 = trace s @ [(Lookup ws n, None)])
       \<or> (\<exists>e. e \<noteq> ComputeTargetException \<and> r = Inl e
              \<and> trace s1 = trace s @ [(Lookup ws n, Some e)])
       \<or> (\<exists>e. r = Inl e
              \<and> trace s1 = trace s @ [(Lookup ws n, Some ComputeTargetException),
                   (Create ws n provisioning_config, Some e)])
       \<or> (\<exists>e t. r = Inl e
              \<and> trace s1 = trace s @ [(Lookup ws n, Some ComputeTargetException),
                   (Create ws n provisioning_config, None),
                   (WaitForCompletion t True None 20, Some e)])
       \<or> (\<exists>t. r = Inr t
              \<and> trace s1 = trace s @ [(Lookup ws n, Some ComputeTargetException),
                   (Create ws n provisioning_config, None),
                   (WaitForCompletion t True None 20, None)]))
    \<and> (\<forall>t. r = Inr t \<longrightarrow>
          (\<exists>s2. compute_cell P ws n s1 = (Inr t, s2)
                \<and> trace s2 = trace s1 @ [(Lookup ws n, None)]))"
proof (intro conjI allI impI)
  show "(\<exists>t. r = Inr t \<and> trace s1 = trace s @ [(Lookup ws n, None)])
       \<or> (\<exists>e. e \<noteq> ComputeTargetException \<and> r = Inl e
              \<and> trace s1 = trace s @ [(Lookup ws n, Some e)])
       \<or> (\<exists>e. r = Inl e
              \<and> trace s1 = trace s @ [(Lookup ws n, Some ComputeTargetException),
                   (Create ws n provisioning_config, Some e)])
       \<or> (\<exists>e t. r = Inl e
              \<and> trace s1 = trace s @ [(Lookup ws n, Some ComputeTargetException),
                   (Create ws n provisioning_config, None),
                   (WaitForCompletion t True None 20, Some e)])
       \<or> (\<exists>t. r = Inr t
              \<and> trace s1 = trace s @ [(Lookup ws n, Some ComputeTargetException),
                   (Create ws n provisioning_config, None),
                   (WaitForCompletion t True None 20, None)])"
    by (rule compute_cell_cases[OF run])
next
  fix t assume "r = Inr t"
  with run have "compute_cell P ws n s = (Inr t, s1)" by simp
  from compute_cell_resolves[OF law this]
  obtain w' where "AmlCompute_init P ws n (world s1) = (Inr t, w')"
    by (cases "AmlCompute_init P ws n (world s1)") auto
  from compute_cell_found[OF this]
  show "\<exists>s2. compute_cell P ws n s1 = (Inr t, s2)
             \<and> trace s2 = trace s1 @ [(Lookup ws n, None)]" .
qed

text \<open>On the reference platform with no compute target: the first run creates the
  target, the second finds it.\<close>

theorem resolve_or_create_idempotent_witness:
  "resolves_created cloud_platform
   \<and> fst (compute_cell cloud_platform (Workspace ''workspace'') ''cpu-cluster''
          (start fresh_cloud))
       = Inr (Compute ''cpu-cluster'')
   \<and> (\<exists>s2. compute_cell cloud_platform (Workspace ''workspace'') ''cpu-cluster''
              (snd (compute_cell cloud_platform (Workspace ''workspace'') ''cpu-cluster''
                 (start fresh_cloud)))
            = (Inr (Compute ''cpu-cluster''), s2)
          \<and> map fst (trace s2)
            = [Lookup (Workspace ''workspace'') ''cpu-cluster'',
               Create (Workspace ''workspace'') ''cpu-cluster'' provisioning_config,
               WaitForCompletion (Compute ''cpu-cluster'') True None 20,
               Lookup (Workspace ''workspace'') ''cpu-cluster''])"
proof -
  let ?run = "compute_cell cloud_platform (Workspace ''workspace'') ''cpu-cluster''
                (start fresh_cloud)"
  have first: "fst ?run = Inr (Compute ''cpu-cluster'')"
    by code_simp
  have tr: "map fst (trace (snd ?run))
      = [Lookup (Workspace ''workspace'') ''cpu-cluster'',
         Create (Workspace ''workspace'') ''cpu-cluster'' provisioning_config,
         WaitForCompletion (Compute ''cpu-cluster'') True None 20]"
    by code_simp
  from first have run: "?run = (Inr (Compute ''cpu-cluster''), snd ?run)"
    by (simp add: prod_eq_iff)
  from resolve_or_create_idempotent[OF resolves_created_cloud run]
  obtain s2 where
    "compute_cell cloud_platform (Workspace ''workspace'') ''cpu-cluster'' (snd ?run)
       = (Inr (Compute ''cpu-cluster''), s2)"
    "trace s2 = trace (snd ?run) @ [(Lookup (Workspace ''workspace'') ''cpu-cluster'', None)]"
    by blast
  with tr first resolves_created_cloud show ?thesis by simp
qed

text \<open>
  C2. Modelled from the spec for the graph and the validation. Between a data-prep step
  that writes a slot and a train step that reads a slot there is an edge exactly when
  the two slots are the same; the graph of the two steps built on one slot is that single
  edge; when the names of the two slots differ, validation of the two-step pipeline fails.
  In a completed run of the notebook the slot is the one named \<open>training_data\<close>: the
  only output of the data-prep step and the only input of the train step.
\<close>

theorem data_prep_feeds_train:
  "(edge (data_prep_step d out c rc) (train_step inp p c rc) \<longleftrightarrow> out = inp)
   \<and> graph [data_prep_step d td c rc, train_step td p c rc]
       = [(data_prep_step d td c rc, train_step td p c rc)]
   \<and> (pd_name out \<noteq> pd_name inp \<longrightarrow>
        validate registered
          (build_pipeline ws (data_prep_step d out c rc) (train_step inp p c rc))
        = Inl ConfigurationError)
   \<and> (run_notebook P w = (Inr v, s) \<longrightarrow>
        pd_name (v_training_data v) = ''training_data''
        \<and> outputs (v_data_prep_step v) = [v_training_data v]
        \<and> inputs (v_train_step v) = Some [DataSlot (v_training_data v)]
        \<and> steps (v_pipeline v) = [v_data_prep_step v, v_train_step v]
        \<and> graph (steps (v_pipeline v)) = [(v_data_prep_step v, v_train_step v)])"
proof (intro conjI impI)
  show "edge (data_prep_step d out c rc) (train_step inp p c rc) \<longleftrightarrow> out = inp"
    by (rule edge_steps)
  show g: "graph [data_prep_step d td c rc, train_step td p c rc]
       = [(data_prep_step d td c rc, train_step td p c rc)]" for d td c rc p
    by (simp add: graph_def edge_steps)
  show "validate registered
          (build_pipeline ws (data_prep_step d out c rc) (train_step inp p c rc))
        = Inl ConfigurationError" if "pd_name out \<noteq> pd_name inp"
  proof -
    from that have "inp \<notin> set [out]" by auto
    then show ?thesis
      by (auto simp: validate_def build_pipeline_def outputs_steps
            check_step_train_unproduced
            split: sum.splits dest: check_step_raises)
  qed
  assume run: "run_notebook P w = (Inr v, s)"
  then have nb: "notebook P (start w) = (Inr v, s)" by (simp add: run_notebook_def)
  note facts = notebook_success[OF nb]
  from facts show "pd_name (v_training_data v) = ''training_data''" by simp
  from facts show "outputs (v_data_prep_step v) = [v_training_data v]"
    by (simp add: outputs_steps)
  from facts show "inputs (v_train_step v) = Some [DataSlot (v_training_data v)]"
    by (simp add: train_step_def)
  from facts show "steps (v_pipeline v) = [v_data_prep_step v, v_train_step v]"
    by (simp add: build_pipeline_def)
  from facts show "graph (steps (v_pipeline v)) = [(v_data_prep_step v, v_train_step v)]"
    by (simp add: build_pipeline_def g)
qed

text \<open>A train step that reads a slot named \<open>features\<close> after a data-prep step that
  writes \<open>training_data\<close>, and the run on the reference platform.\<close>

theorem data_prep_feeds_train_witness:
  "pd_name \<lparr>pd_name = ''training_data'', pd_datastore = Datastore ''''\<rparr>
     \<noteq> pd_name \<lparr>pd_name = ''features'', pd_datastore = Datastore ''''\<rparr>
   \<and> validate ['''']
        (build_pipeline (Workspace ''workspace'')
           (data_prep_step (TabularDataset '''')
              \<lparr>pd_name = ''training_data'', pd_datastore = Datastore ''''\<rparr>
              (Compute ''cpu-cluster'') RunConfiguration)
           (train_step \<lparr>pd_name = ''features'', pd_datastore = Datastore ''''\<rparr>
              param1 (Compute ''cpu-cluster'') RunConfiguration))
       = Inl ConfigurationError
   \<and> validate ['''']
        (build_pipeline (Workspace ''workspace'')
           (data_prep_step (TabularDataset '''')
              \<lparr>pd_name = ''training_data'', pd_datastore = Datastore ''''\<rparr>
              (Compute ''cpu-cluster'') RunConfiguration)
           (train_step \<lparr>pd_name = ''training_data'', pd_datastore = Datastore ''''\<rparr>
              param1 (Compute ''cpu-cluster'') RunConfiguration))
       = Inr ()
   \<and> (\<exists>v s. run_notebook cloud_platform fresh_cloud = (Inr v, s)
         \<and> pd_name (v_training_data v) = ''training_data''
         \<and> graph (steps (v_pipeline v)) = [(v_data_prep_step v, v_train_step v)])"
proof -
  have differ: "pd_name \<lparr>pd_name = ''training_data'', pd_datastore = Datastore ''''\<rparr>
     \<noteq> pd_name \<lparr>pd_name = ''features'', pd_datastore = Datastore ''''\<rparr>"
    by simp
  have passes: "validate ['''']
        (build_pipeline (Workspace ''workspace'')
           (data_prep_step (TabularDataset '''')
              \<lparr>pd_name = ''training_data'', pd_datastore = Datastore ''''\<rparr>
              (Compute ''cpu-cluster'') RunConfiguration)
           (train_step \<lparr>pd_name = ''training_data'', pd_datastore = Datastore ''''\<rparr>
              param1 (Compute ''cpu-cluster'') RunConfiguration))
       = Inr ()"
    by code_simp
  from fresh_run_completes obtain v
    where v: "run_notebook cloud_platform fresh_cloud
                = (Inr v, snd (run_notebook cloud_platform fresh_cloud))"
    by blast
  note inst = data_prep_feeds_train[where out =
      "\<lparr>pd_name = ''training_data'', pd_datastore = Datastore ''''\<rparr>"
      and inp = "\<lparr>pd_name = ''features'', pd_datastore = Datastore ''''\<rparr>"
      and registered = "['''']" and ws = "Workspace ''workspace''"
      and d = "TabularDataset ''''" and c = "Compute ''cpu-cluster''"
      and rc = RunConfiguration and p = param1 and P = cloud_platform
      and w = fresh_cloud and v = v
      and s = "snd (run_notebook cloud_platform fresh_cloud)"]
  from inst differ have fails: "validate ['''']
        (build_pipeline (Workspace ''workspace'')
           (data_prep_step (TabularDataset '''')
              \<lparr>pd_name = ''training_data'', pd_datastore = Datastore ''''\<rparr>
              (Compute ''cpu-cluster'') RunConfiguration)
           (train_step \<lparr>pd_name = ''features'', pd_datastore = Datastore ''''\<rparr>
              param1 (Compute ''cpu-cluster'') RunConfiguration))
       = Inl ConfigurationError"
    by blast
  from inst v have "pd_name (v_training_data v) = ''training_data''
      \<and> graph (steps (v_pipeline v)) = [(v_data_prep_step v, v_train_step v)]"
    by blast
  with v differ fails passes show ?thesis by blast
qed

text \<open>
  C3. Modelled from the spec. Validation fails, with \<open>ConfigurationError\<close>, exactly
  when some step declares an input slot that no step of the pipeline declares as an
  output, or has no compute target, or requires a named dataset that is not registered;
  otherwise it succeeds.
\<close>

theorem validate_fails_exactly:
  "validate registered pl =
     (if \<exists>st \<in> set (steps pl).
           (\<exists>slot \<in> set (input_slots st). \<forall>A \<in> set (steps pl). slot \<notin> set (outputs A))
           \<or> compute_target st = None
           \<or> (\<exists>n \<in> set (required_datasets st). n \<notin> set registered)
      then Inl ConfigurationError else Inr ())"
proof -
  have step:
    "check_step registered (concat (map outputs (steps pl))) st = Inl ConfigurationError
      \<longleftrightarrow> (\<exists>slot \<in> set (input_slots st). \<forall>A \<in> set (steps pl). slot \<notin> set (outputs A))
           \<or> compute_target st = None
           \<or> (\<exists>n \<in> set (required_datasets st). n \<notin> set registered)" for st
    by (auto simp: check_step_def list_ex_iff)
  show ?thesis
    unfolding validate_def check_steps_result step ..
qed

text \<open>A train step alone (its input slot has no producer), a data-prep step with no
  compute target, the two steps when the dataset is not registered, and the two steps
  when it is.\<close>

theorem validate_fails_exactly_witness:
  "validate ['''']
     \<lparr>pl_workspace = Workspace ''workspace'',
      steps = [train_step \<lparr>pd_name = ''training_data'', pd_datastore = Datastore ''''\<rparr>
                 param1 (Compute ''cpu-cluster'') RunConfiguration],
      pl_description = ''train only''\<rparr>
     = Inl ConfigurationError
   \<and> validate ['''']
     \<lparr>pl_workspace = Workspace ''workspace'',
      steps = [(data_prep_step (TabularDataset '''')
                  \<lparr>pd_name = ''training_data'', pd_datastore = Datastore ''''\<rparr>
                  (Compute ''cpu-cluster'') RunConfiguration)\<lparr>compute_target := None\<rparr>],
      pl_description = ''no compute target''\<rparr>
     = Inl ConfigurationError
   \<and> validate []
        (build_pipeline (Workspace ''workspace'')
           (data_prep_step (TabularDataset '''')
              \<lparr>pd_name = ''training_data'', pd_datastore = Datastore ''''\<rparr>
              (Compute ''cpu-cluster'') RunConfiguration)
           (train_step \<lparr>pd_name = ''training_data'', pd_datastore = Datastore ''''\<rparr>
              param1 (Compute ''cpu-cluster'') RunConfiguration))
     = Inl ConfigurationError
   \<and> validate ['''']
        (build_pipeline (Workspace ''workspace'')
           (data_prep_step (TabularDataset '''')
              \<lparr>pd_name = ''training_data'', pd_datastore = Datastore ''''\<rparr>
              (Compute ''cpu-cluster'') RunConfiguration)
           (train_step \<lparr>pd_name = ''training_data'', pd_datastore = Datastore ''''\<rparr>
              param1 (Compute ''cpu-cluster'') RunConfiguration))
     = Inr ()"
proof -
  let ?slot = "\<lparr>pd_name = ''training_data'', pd_datastore = Datastore ''''\<rparr>"
  let ?prep = "data_prep_step (TabularDataset '''') ?slot (Compute ''cpu-cluster'')
                 RunConfiguration"
  let ?train = "train_step ?slot param1 (Compute ''cpu-cluster'') RunConfiguration"
  have slots: "input_slots ?train = [?slot]" "input_slots ?prep = []"
    "outputs ?train = []" "outputs ?prep = [?slot]"
    by (simp_all add: input_slots_train input_slots_data_prep outputs_steps)
  have needs: "required_datasets ?prep = ['''']" "required_datasets ?train = []"
    by (simp_all add: required_datasets_def data_prep_step_def train_step_def my_inputs_def)
  have targets: "compute_target ?prep = Some (Compute ''cpu-cluster'')"
    "compute_target ?train = Some (Compute ''cpu-cluster'')"
    by (simp_all add: data_prep_step_def train_step_def)
  have unfed: "validate ['''']
     \<lparr>pl_workspace = Workspace ''workspace'', steps = [?train],
      pl_description = ''train only''\<rparr> = Inl ConfigurationError"
    using validate_fails_exactly[of "['''']"
        "\<lparr>pl_workspace = Workspace ''workspace'', steps = [?train],
          pl_description = ''train only''\<rparr>"]
    by (simp add: slots)
  have untargeted: "validate ['''']
     \<lparr>pl_workspace = Workspace ''workspace'', steps = [?prep\<lparr>compute_target := None\<rparr>],
      pl_description = ''no compute target''\<rparr> = Inl ConfigurationError"
    using validate_fails_exactly[of "['''']"
        "\<lparr>pl_workspace = Workspace ''workspace'',
          steps = [?prep\<lparr>compute_target := None\<rparr>],
          pl_description = ''no compute target''\<rparr>"]
    by simp
  have unregistered: "validate [] (build_pipeline (Workspace ''workspace'') ?prep ?train)
      = Inl ConfigurationError"
    using validate_fails_exactly[of "[]" "build_pipeline (Workspace ''workspace'') ?prep ?train"]
    by (simp add: build_pipeline_def needs)
  have passes: "validate [''''] (build_pipeline (Workspace ''workspace'') ?prep ?train)
      = Inr ()"
    using validate_fails_exactly[of "['''']"
        "build_pipeline (Workspace ''workspace'') ?prep ?train"]
    by (simp add: build_pipeline_def slots needs targets)
  from unfed untargeted unregistered passes show ?thesis by blast
qed

text \<open>
  C4. When the lookup of a name raises \<open>ComputeTargetException\<close> (no such target),
  the next call of the compute cell is the request to create a target of that name with
  \<open>vm_size\<close> \<open>STANDARD_D2_V2\<close>, 0 to 4 nodes and 1200 idle seconds before scaledown,
  and the target the cell returns is the one the platform created on that request.
\<close>

theorem provisioning_request_bounds:
  assumes absent: "fst (AmlCompute_init P ws n (world s)) = Inl ComputeTargetException"
      and run: "compute_cell P ws n s = (r, s1)"
  shows "\<exists>res rest.
           trace s1 = trace s @ (Lookup ws n, Some ComputeTargetException)
             # (Create ws n
                  \<lparr>vm_size = ''STANDARD_D2_V2'', idle_seconds_before_scaledown = 1200,
                   min_nodes = 0, max_nodes = 4\<rparr>, res) # rest
           \<and> (\<forall>t. r = Inr t \<longrightarrow> res = None
                 \<and> (\<exists>w1 w2.
                      AmlCompute_init P ws n (world s) = (Inl ComputeTargetException, w1)
                      \<and> ComputeTarget_create P ws n
                          \<lparr>vm_size = ''STANDARD_D2_V2'',
                           idle_seconds_before_scaledown = 1200,
                           min_nodes = 0, max_nodes = 4\<rparr> w1 = (Inr t, w2)))"
  using assms
  by (cases r)
     (auto simp: compute_cell_def try_except_def lookup_compute_def create_compute_def
        provisioning_config_def
        bind_Inr bind_Inl invoke_eq print_eq return_eq outcome_def
        split: prod.splits sum.splits if_splits)

text \<open>On the reference platform with no compute target, the target registered under
  \<open>cpu-cluster\<close> after the cell carries those bounds.\<close>

theorem provisioning_request_bounds_witness:
  "fst (AmlCompute_init cloud_platform (Workspace ''workspace'') ''cpu-cluster''
          (world (start fresh_cloud))) = Inl ComputeTargetException
   \<and> fst (compute_cell cloud_platform (Workspace ''workspace'') ''cpu-cluster''
          (start fresh_cloud))
       = Inr (Compute ''cpu-cluster'')
   \<and> fst (ComputeTarget_create cloud_platform (Workspace ''workspace'') ''cpu-cluster''
        \<lparr>vm_size = ''STANDARD_D2_V2'', idle_seconds_before_scaledown = 1200,
         min_nodes = 0, max_nodes = 4\<rparr> fresh_cloud) = Inr (Compute ''cpu-cluster'')
   \<and> map_of (compute_targets (world (snd (compute_cell cloud_platform
        (Workspace ''workspace'') ''cpu-cluster'' (start fresh_cloud))))) ''cpu-cluster''
       = Some \<lparr>vm_size = ''STANDARD_D2_V2'', idle_seconds_before_scaledown = 1200,
               min_nodes = 0, max_nodes = 4\<rparr>"
proof -
  let ?run = "compute_cell cloud_platform (Workspace ''workspace'') ''cpu-cluster''
                (start fresh_cloud)"
  have absent:
    "fst (AmlCompute_init cloud_platform (Workspace ''workspace'') ''cpu-cluster''
          (world (start fresh_cloud))) = Inl ComputeTargetException"
    by code_simp
  have first: "fst ?run = Inr (Compute ''cpu-cluster'')"
    by code_simp
  have reg: "map_of (compute_targets (world (snd ?run))) ''cpu-cluster''
       = Some \<lparr>vm_size = ''STANDARD_D2_V2'', idle_seconds_before_scaledown = 1200,
               min_nodes = 0, max_nodes = 4\<rparr>"
    by code_simp
  from first have run: "?run = (Inr (Compute ''cpu-cluster''), snd ?run)"
    by (simp add: prod_eq_iff)
  from provisioning_request_bounds[OF absent run]
  obtain w1 w2 where
    "AmlCompute_init cloud_platform (Workspace ''workspace'') ''cpu-cluster''
       (world (start fresh_cloud)) = (Inl ComputeTargetException, w1)"
    "ComputeTarget_create cloud_platform (Workspace ''workspace'') ''cpu-cluster''
        \<lparr>vm_size = ''STANDARD_D2_V2'', idle_seconds_before_scaledown = 1200,
         min_nodes = 0, max_nodes = 4\<rparr> w1 = (Inr (Compute ''cpu-cluster''), w2)"
    by blast
  moreover have "w1 = fresh_cloud" using calculation(1)
    by (simp add: cloud_platform_def cloud_lookup_def start_def fresh_cloud_def
          split: option.splits)
  ultimately have "fst (ComputeTarget_create cloud_platform (Workspace ''workspace'')
        ''cpu-cluster''
        \<lparr>vm_size = ''STANDARD_D2_V2'', idle_seconds_before_scaledown = 1200,
         min_nodes = 0, max_nodes = 4\<rparr> fresh_cloud) = Inr (Compute ''cpu-cluster'')"
    by simp
  with absent first reg show ?thesis by simp
qed

text \<open>
  C5. Modelled from the spec for the reading of a recurrence. The recurrence the notebook
  constructs has frequency \<open>Day\<close>, interval 2, hour 22 and minute 30, and it fires
  exactly on every other day, counted from the day the schedule starts, at 22:30.
\<close>

theorem recurrence_every_other_day:
  "frequency the_recurrence = ''Day'' \<and> interval the_recurrence = 2
   \<and> hours the_recurrence = [22] \<and> minutes the_recurrence = [30]
   \<and> (fires the_recurrence d h m \<longleftrightarrow> even d \<and> h = 22 \<and> m = 30)"
  by (auto simp: fires_def the_recurrence_def)

theorem recurrence_every_other_day_witness:
  "fires the_recurrence 0 22 30 \<and> \<not> fires the_recurrence 1 22 30
   \<and> fires the_recurrence 2 22 30 \<and> \<not> fires the_recurrence 2 10 30
   \<and> \<not> fires the_recurrence 2 22 31"
  using recurrence_every_other_day[of 0 22 30] recurrence_every_other_day[of 1 22 30]
    recurrence_every_other_day[of 2 22 30] recurrence_every_other_day[of 2 10 30]
    recurrence_every_other_day[of 2 22 31]
  by simp

text \<open>
  C7, as amended. The lookup of the compute target is the only call whose exception the
  notebook catches: in every run, on every platform, a \<open>ComputeTargetException\<close> raised
  by the lookup is followed by the request to create the target, and an exception raised
  by any other SDK call (or any other exception of the lookup) is the last entry of the
  trace and the outcome of the run: nothing is called after it and nothing is called
  again. The failures of the shell commands of the first cell do not propagate: the cell
  runs its seven commands whatever their exit statuses, raises nothing, and the cells of
  Python run after it.
\<close>

theorem sdk_failures_propagate_shell_failures_do_not:
  "propagates (trace (snd (run_notebook P w))) (outcome (fst (run_notebook P w)))
   \<and> fst (bash_cell P s) = Inr ()
   \<and> trace (snd (bash_cell P s)) = trace s
   \<and> map fst (shell_log (snd (bash_cell P s))) = map fst (shell_log s) @ bash_commands
   \<and> run_notebook P w = python_cells P (snd (bash_cell P (start w)))"
proof -
  obtain r t where run: "notebook P (start w) = (r, t)"
    by (cases "notebook P (start w)")
  with tracks_notebook[of P] obtain new
    where "trace t = trace (start w) @ new" "propagates new (outcome r)"
    unfolding tracks_def by blast
  with run have 1:
    "propagates (trace (snd (run_notebook P w))) (outcome (fst (run_notebook P w)))"
    by (simp add: run_notebook_def start_def)
  from bash_cell_run[of P s] have 2: "fst (bash_cell P s) = Inr ()"
    "trace (snd (bash_cell P s)) = trace s"
    "map fst (shell_log (snd (bash_cell P s))) = map fst (shell_log s) @ bash_commands"
    by auto
  from bash_cell_run[of P "start w"]
  have 3: "run_notebook P w = python_cells P (snd (bash_cell P (start w)))"
    by (auto simp: run_notebook_def notebook_def bind_def)
  from 1 2 3 show ?thesis by blast
qed

text \<open>On the reference platform with no compute target and no dataset: the lookup
  raises and the target is created; the dataset lookup raises and ends the run.\<close>

theorem sdk_failures_propagate_shell_failures_do_not_witness:
  "fst (run_notebook cloud_platform bare_cloud) = Inl (OtherException ''UserErrorException'')
   \<and> map snd (trace (snd (run_notebook cloud_platform bare_cloud)))
       = [None, Some ComputeTargetException, None, None, None,
          Some (OtherException ''UserErrorException'')]
   \<and> propagates (trace (snd (run_notebook cloud_platform bare_cloud)))
       (outcome (fst (run_notebook cloud_platform bare_cloud)))
   \<and> map fst (shell_log (snd (bash_cell cloud_platform (start lint_errors_cloud))))
       = bash_commands
   \<and> map snd (shell_log (snd (bash_cell cloud_platform (start lint_errors_cloud))))
       = [1, 0, 0, 2, 0, 0, 0]
   \<and> fst (bash_cell cloud_platform (start lint_errors_cloud)) = Inr ()"
proof -
  have "fst (run_notebook cloud_platform bare_cloud)
          = Inl (OtherException ''UserErrorException'')"
    by code_simp
  moreover have "map snd (trace (snd (run_notebook cloud_platform bare_cloud)))
       = [None, Some ComputeTargetException, None, None, None,
          Some (OtherException ''UserErrorException'')]"
    by code_simp
  moreover have
    "map snd (shell_log (snd (bash_cell cloud_platform (start lint_errors_cloud))))
       = [1, 0, 0, 2, 0, 0, 0]"
    by code_simp
  moreover note inst = sdk_failures_propagate_shell_failures_do_not[of cloud_platform
      bare_cloud "start lint_errors_cloud"]
  moreover from inst have "propagates (trace (snd (run_notebook cloud_platform bare_cloud)))
       (outcome (fst (run_notebook cloud_platform bare_cloud)))"
    by blast
  moreover from inst have "fst (bash_cell cloud_platform (start lint_errors_cloud)) = Inr ()"
    by blast
  moreover from inst have
    "map fst (shell_log (snd (bash_cell cloud_platform (start lint_errors_cloud))))
       = map fst (shell_log (start lint_errors_cloud)) @ bash_commands"
    by blast
  then have
    "map fst (shell_log (snd (bash_cell cloud_platform (start lint_errors_cloud))))
       = bash_commands"
    by (simp add: start_def)
  ultimately show ?thesis by blast
qed

text \<open>
  C7, as stated, fails on the shell cell: on the reference platform where the
  installation of yapf exits with status 1 and the linting of the data-prep script with
  status 2, both failures are in the log of the run, no exception is its outcome, and
  the run goes on to its last cell.
\<close>

theorem shell_failure_does_not_propagate_counterexample:
  "map snd (shell_log (snd (run_notebook cloud_platform lint_errors_cloud)))
     = [1, 0, 0, 2, 0, 0, 0]
   \<and> \<not> isl (fst (run_notebook cloud_platform lint_errors_cloud))
   \<and> length (created_schedules (trace (snd (run_notebook cloud_platform lint_errors_cloud))))
     = 2"
proof -
  let ?run = "run_notebook cloud_platform lint_errors_cloud"
  have 1: "map snd (shell_log (snd ?run)) = [1, 0, 0, 2, 0, 0, 0]"
    by code_simp
  have 2: "\<not> isl (fst ?run)"
    by code_simp
  have 3: "length (created_schedules (trace (snd ?run))) = 2"
    by code_simp
  from 1 2 3 show ?thesis by blast
qed

text \<open>
  C8. The dispatch on the class of the input dataset: a \<open>FileDataset\<close> is bound as a
  named input, mounted; a \<open>TabularDataset\<close> as a named input, not mounted; for a
  dataset of neither class the cell returns a step whose \<open>inputs\<close> is \<open>None\<close>, and
  raises nothing.
\<close>

theorem dataset_binding_dispatch:
  "inputs (data_prep_step (FileDataset n) td c rc)
     = Some [DatasetInput (as_mount (as_named_input (FileDataset n) n))]
   \<and> inputs (data_prep_step (TabularDataset n) td c rc)
     = Some [DatasetInput (as_named_input (TabularDataset n) n)]
   \<and> (\<not> isinstance_FileDataset d \<and> \<not> isinstance_TabularDataset d \<longrightarrow>
        inputs (data_prep_step d td c rc) = None
        \<and> data_prep_cell d td c rc s = (Inr (data_prep_step d td c rc), s))"
  by (simp add: data_prep_step_def my_inputs_def data_prep_cell_def return_def)

theorem dataset_binding_dispatch_witness:
  "\<not> isinstance_FileDataset (OtherDataset ''images'')
   \<and> \<not> isinstance_TabularDataset (OtherDataset ''images'')
   \<and> inputs (data_prep_step (OtherDataset ''images'')
        \<lparr>pd_name = ''training_data'', pd_datastore = Datastore ''''\<rparr>
        (Compute ''cpu-cluster'') RunConfiguration) = None
   \<and> data_prep_cell (OtherDataset ''images'')
        \<lparr>pd_name = ''training_data'', pd_datastore = Datastore ''''\<rparr>
        (Compute ''cpu-cluster'') RunConfiguration (start fresh_cloud)
     = (Inr (data_prep_step (OtherDataset ''images'')
          \<lparr>pd_name = ''training_data'', pd_datastore = Datastore ''''\<rparr>
          (Compute ''cpu-cluster'') RunConfiguration), start fresh_cloud)"
  using dataset_binding_dispatch[where d = "OtherDataset ''images''"
      and td = "\<lparr>pd_name = ''training_data'', pd_datastore = Datastore ''''\<rparr>"
      and c = "Compute ''cpu-cluster''" and rc = RunConfiguration
      and s = "start fresh_cloud"]
  by simp





end
